theory Spec2Isabelle
  imports Main "HOL-Library.AList"
begin

section \<open>Backup file service (vs/workbench/services/backup/node/backupFileService.ts)\<close>

text \<open>
  The service keeps an in-memory index of the backups it knows (class
  \<open>BackupFilesModel\<close>) and writes, deletes and lists backup files through
  collaborators that live outside the file: the \<open>Uri\<close> class, node's
  \<open>path\<close> and \<open>crypto\<close>, the \<open>pfs\<close> helpers, the file service and
  \<open>readToMatchingString\<close>. The collaborators are parameters of the model (record
  \<open>env\<close>); the file system they act on is a value of an arbitrary type \<open>'fs\<close>
  that every operation receives and returns.

  A promise is modelled by the value it settles to (\<open>outcome\<close>). The model is
  sequential: every public operation runs until its promise has settled before the next
  one starts.
\<close>

subsection \<open>Promises\<close>

datatype error = Error string | JoinError "error list"

datatype 'a outcome = Fulfilled 'a | Rejected error

text \<open>
  \<open>TPromise.join\<close> of the promise library (vs/base/common/winjs.base, outside the
  sources): the joined promise is fulfilled with the values of all promises when every
  one of them is fulfilled, and rejected with the collected errors when one of them is
  rejected.
\<close>

fun rejections :: "'a outcome list \<Rightarrow> error list" where
  "rejections [] = []"
| "rejections (Fulfilled v # ps) = rejections ps"
| "rejections (Rejected e # ps) = e # rejections ps"

fun fulfilments :: "'a outcome list \<Rightarrow> 'a list" where
  "fulfilments [] = []"
| "fulfilments (Fulfilled v # ps) = v # fulfilments ps"
| "fulfilments (Rejected e # ps) = fulfilments ps"

definition TPromise_join :: "'a outcome list \<Rightarrow> 'a list outcome" where
  "TPromise_join ps =
     (if rejections ps = [] then Fulfilled (fulfilments ps)
      else Rejected (JoinError (rejections ps)))"

subsection \<open>Collaborators\<close>

text \<open>
  \<open>'u\<close> is the type of \<open>Uri\<close> values. \<open>fileService_updateContent\<close> and
  \<open>pfs_del\<close> return the file system they leave behind together with the way their
  promise settles; a failed write or delete may still have changed the disk.
  The constant \<open>BACKUP_FILE_UPDATE_OPTIONS\<close> passed to \<open>updateContent\<close> is fixed
  and left out.
\<close>

record ('u, 'fs) env =
  Uri_toString :: "'u \<Rightarrow> string"
  Uri_scheme :: "'u \<Rightarrow> string"
  Uri_fsPath :: "'u \<Rightarrow> string"
  Uri_file :: "string \<Rightarrow> 'u"
  Uri_parse :: "string \<Rightarrow> 'u"
  path_join :: "string list \<Rightarrow> string"
  md5_hex :: "string \<Rightarrow> string"
  pfs_readDirsInDir :: "'fs \<Rightarrow> string \<Rightarrow> string list outcome"
  pfs_readdir :: "'fs \<Rightarrow> string \<Rightarrow> string list outcome"
  pfs_del :: "'fs \<Rightarrow> string \<Rightarrow> 'fs \<times> unit outcome"
  fileService_updateContent :: "'fs \<Rightarrow> 'u \<Rightarrow> string \<Rightarrow> 'fs \<times> unit outcome"
  readToMatchingString :: "'fs \<Rightarrow> string \<Rightarrow> string \<Rightarrow> nat \<Rightarrow> nat \<Rightarrow> string outcome"

subsection \<open>BackupFilesModel\<close>

text \<open>
  \<open>cache\<close> is an object used as a dictionary from \<open>resource.toString()\<close> to the
  version id. \<open>Object.keys\<close> lists the keys in the order of their first insertion,
  so the dictionary is an association list: assigning to a known key replaces its value
  in place, a new key goes to the end, \<open>delete\<close> drops the key. (The keys are
  string forms of resources, never array indices, which \<open>Object.keys\<close> would list
  first.) Version ids are integers; an omitted argument (\<open>undefined\<close>) is
  \<open>None\<close>, and \<open>add\<close> stores its default 0 for it.
\<close>

type_synonym BackupFilesModel = "(string \<times> int) list"

definition add :: "('u, 'fs) env \<Rightarrow> BackupFilesModel \<Rightarrow> 'u \<Rightarrow> int option \<Rightarrow> BackupFilesModel" where
  "add E cache resource versionId =
     AList.update (Uri_toString E resource) (case versionId of None \<Rightarrow> 0 | Some v \<Rightarrow> v) cache"

definition count :: "BackupFilesModel \<Rightarrow> nat" where
  "count cache = length (map fst cache)"

definition has :: "('u, 'fs) env \<Rightarrow> BackupFilesModel \<Rightarrow> 'u \<Rightarrow> int option \<Rightarrow> bool" where
  "has E cache resource versionId =
     (case map_of cache (Uri_toString E resource) of
        None \<Rightarrow> False
      | Some cachedVersionId \<Rightarrow>
          (case versionId of
             Some v \<Rightarrow> v = cachedVersionId
           | None \<Rightarrow> True))"

definition get :: "('u, 'fs) env \<Rightarrow> BackupFilesModel \<Rightarrow> 'u list" where
  "get E cache = map (\<lambda>k. Uri_parse E k) (map fst cache)"

definition remove :: "('u, 'fs) env \<Rightarrow> BackupFilesModel \<Rightarrow> 'u \<Rightarrow> BackupFilesModel" where
  "remove E cache resource = AList.delete (Uri_toString E resource) cache"

definition clear :: "BackupFilesModel" where
  "clear = []"

text \<open>
  \<open>resolve\<close>: the directories of the backup root are listed, then every schema
  directory is read and each entry found there is added with the default version id.
  The reads of the schema directories are joined; the model is the object \<open>this\<close>,
  so the entries of the directories that could be read stay in it when another read is
  rejected. The reads are taken in the order of the listing; every entry is added with
  the same version id, so another order of completion gives the same dictionary up to
  the order of its keys. Both handlers of the final \<open>then\<close> return the model.
\<close>

definition addHashes :: "('u, 'fs) env \<Rightarrow> string \<Rightarrow> string list \<Rightarrow> BackupFilesModel \<Rightarrow> BackupFilesModel" where
  "addHashes E backupSchemaPath backupHashes this =
     foldl (\<lambda>cache backupHash.
              add E cache (Uri_file E (path_join E [backupSchemaPath, backupHash])) None)
       this backupHashes"

definition readSchema ::
  "('u, 'fs) env \<Rightarrow> 'fs \<Rightarrow> string \<Rightarrow> string \<Rightarrow> BackupFilesModel \<Rightarrow> BackupFilesModel \<times> unit outcome" where
  "readSchema E disk backupRoot backupSchema this =
     (let backupSchemaPath = path_join E [backupRoot, backupSchema] in
      case pfs_readdir E disk backupSchemaPath of
        Rejected e \<Rightarrow> (this, Rejected e)
      | Fulfilled backupHashes \<Rightarrow> (addHashes E backupSchemaPath backupHashes this, Fulfilled ()))"

fun readSchemas ::
  "('u, 'fs) env \<Rightarrow> 'fs \<Rightarrow> string \<Rightarrow> string list \<Rightarrow> BackupFilesModel \<Rightarrow> BackupFilesModel \<times> unit outcome list" where
  "readSchemas E disk backupRoot [] this = (this, [])"
| "readSchemas E disk backupRoot (backupSchema # rest) this =
     (case readSchema E disk backupRoot backupSchema this of
        (this1, r) \<Rightarrow>
          (case readSchemas E disk backupRoot rest this1 of
             (this2, rs) \<Rightarrow> (this2, r # rs)))"

definition scan ::
  "('u, 'fs) env \<Rightarrow> 'fs \<Rightarrow> string \<Rightarrow> BackupFilesModel \<Rightarrow> BackupFilesModel \<times> unit list outcome" where
  "scan E disk backupRoot this =
     (case pfs_readDirsInDir E disk backupRoot of
        Rejected e \<Rightarrow> (this, Rejected e)
      | Fulfilled backupSchemas \<Rightarrow>
          (case readSchemas E disk backupRoot backupSchemas this of
             (this1, rs) \<Rightarrow> (this1, TPromise_join rs)))"

definition resolve ::
  "('u, 'fs) env \<Rightarrow> 'fs \<Rightarrow> string \<Rightarrow> BackupFilesModel \<Rightarrow> BackupFilesModel outcome" where
  "resolve E disk backupRoot this =
     (case scan E disk backupRoot this of
        (this1, Fulfilled _) \<Rightarrow> Fulfilled this1
      | (this1, Rejected error) \<Rightarrow> Fulfilled this1)"

subsection \<open>BackupFileService\<close>

text \<open>
  The fields of the service, and the file system behind \<open>fileService\<close> and
  \<open>pfs\<close>. \<open>ready\<close> is the promise of the model made by \<open>init\<close>; the model it is
  fulfilled with is the object that \<open>add\<close>, \<open>remove\<close> and \<open>clear\<close> mutate.
\<close>

record 'fs BackupFileService =
  backupWorkspacePath :: string
  isShuttingDown :: bool
  ready :: "BackupFilesModel outcome"
  fs :: 'fs

definition META_MARKER :: string where
  "META_MARKER = [CHR 0x0A]"

text \<open>\<open>!!this.backupWorkspacePath\<close>: a path is truthy when it is not the empty string.\<close>

definition backupEnabled :: "'fs BackupFileService \<Rightarrow> bool" where
  "backupEnabled S = (backupWorkspacePath S \<noteq> [])"

text \<open>
  \<open>init\<close> runs in the constructor, on the workspace path and the disk of that moment:
  a fresh model, resolved against the backup root unless backups are disabled.
\<close>

definition init :: "('u, 'fs) env \<Rightarrow> string \<Rightarrow> 'fs \<Rightarrow> BackupFilesModel outcome" where
  "init E workspacePath disk =
     (let model = [] in
      if workspacePath = [] then Fulfilled model
      else resolve E disk workspacePath model)"

definition constructor :: "('u, 'fs) env \<Rightarrow> string \<Rightarrow> 'fs \<Rightarrow> 'fs BackupFileService" where
  "constructor E workspacePath disk =
     \<lparr>backupWorkspacePath = workspacePath, isShuttingDown = False,
      ready = init E workspacePath disk, fs = disk\<rparr>"

definition hashPath :: "('u, 'fs) env \<Rightarrow> 'u \<Rightarrow> string" where
  "hashPath E resource = md5_hex E (Uri_fsPath E resource)"

definition getBackupResource :: "('u, 'fs) env \<Rightarrow> 'fs BackupFileService \<Rightarrow> 'u \<Rightarrow> 'u option" where
  "getBackupResource E S resource =
     (if \<not> backupEnabled S then None
      else Some (Uri_file E
             (path_join E [backupWorkspacePath S, Uri_scheme E resource, hashPath E resource])))"

definition hasBackups :: "'fs BackupFileService \<Rightarrow> bool outcome" where
  "hasBackups S =
     (case ready S of
        Rejected e \<Rightarrow> Rejected e
      | Fulfilled model \<Rightarrow> Fulfilled (count model > 0))"

definition loadBackupResource :: "('u, 'fs) env \<Rightarrow> 'fs BackupFileService \<Rightarrow> 'u \<Rightarrow> 'u option outcome" where
  "loadBackupResource E S resource =
     (case ready S of
        Rejected e \<Rightarrow> Rejected e
      | Fulfilled model \<Rightarrow>
          (case getBackupResource E S resource of
             None \<Rightarrow> Fulfilled None
           | Some backupResource' \<Rightarrow>
               if has E model backupResource' None then Fulfilled (Some backupResource')
               else Fulfilled None))"

text \<open>
  Modelled from the spec: the per-key operation queue (\<open>ResourceQueue\<close> of
  vs/base/common/async, which is not part of the sources). Operations for one key run
  in submission order, one at a time, and the caller observes the result of its
  operation, a failure included. In a sequential run the queue of the key is empty when
  an operation is submitted, so the operation runs at once.
\<close>

definition queue :: "('s \<Rightarrow> 's \<times> 'a outcome) \<Rightarrow> 's \<Rightarrow> 's \<times> 'a outcome" where
  "queue factory S = factory S"

definition frame :: "('u, 'fs) env \<Rightarrow> 'u \<Rightarrow> string \<Rightarrow> string" where
  "frame E resource content = Uri_toString E resource @ META_MARKER @ content"

text \<open>The queued write of \<open>backupResource\<close>: the model is updated after a successful write only.\<close>

definition writeBackup ::
  "('u, 'fs) env \<Rightarrow> BackupFilesModel \<Rightarrow> 'u \<Rightarrow> string \<Rightarrow> int option \<Rightarrow>
   'fs BackupFileService \<Rightarrow> 'fs BackupFileService \<times> unit outcome" where
  "writeBackup E model backupResource' content versionId S =
     (case fileService_updateContent E (fs S) backupResource' content of
        (disk, Rejected e) \<Rightarrow> (S\<lparr>fs := disk\<rparr>, Rejected e)
      | (disk, Fulfilled _) \<Rightarrow>
          (S\<lparr>fs := disk, ready := Fulfilled (add E model backupResource' versionId)\<rparr>, Fulfilled ()))"

definition backupResource ::
  "('u, 'fs) env \<Rightarrow> 'fs BackupFileService \<Rightarrow> 'u \<Rightarrow> string \<Rightarrow> int option \<Rightarrow>
   'fs BackupFileService \<times> unit outcome" where
  "backupResource E S resource content versionId =
     (if isShuttingDown S then (S, Fulfilled ())
      else
        case ready S of
          Rejected e \<Rightarrow> (S, Rejected e)
        | Fulfilled model \<Rightarrow>
            (case getBackupResource E S resource of
               None \<Rightarrow> (S, Fulfilled ())
             | Some backupResource' \<Rightarrow>
                 if has E model backupResource' versionId then (S, Fulfilled ())
                 else queue (writeBackup E model backupResource' (frame E resource content) versionId) S))"

text \<open>The queued delete of \<open>discardResourceBackup\<close>.\<close>

definition deleteBackup ::
  "('u, 'fs) env \<Rightarrow> BackupFilesModel \<Rightarrow> 'u \<Rightarrow> 'fs BackupFileService \<Rightarrow>
   'fs BackupFileService \<times> unit outcome" where
  "deleteBackup E model backupResource' S =
     (case pfs_del E (fs S) (Uri_fsPath E backupResource') of
        (disk, Rejected e) \<Rightarrow> (S\<lparr>fs := disk\<rparr>, Rejected e)
      | (disk, Fulfilled _) \<Rightarrow>
          (S\<lparr>fs := disk, ready := Fulfilled (remove E model backupResource')\<rparr>, Fulfilled ()))"

definition discardResourceBackup ::
  "('u, 'fs) env \<Rightarrow> 'fs BackupFileService \<Rightarrow> 'u \<Rightarrow> 'fs BackupFileService \<times> unit outcome" where
  "discardResourceBackup E S resource =
     (case ready S of
        Rejected e \<Rightarrow> (S, Rejected e)
      | Fulfilled model \<Rightarrow>
          (case getBackupResource E S resource of
             None \<Rightarrow> (S, Fulfilled ())
           | Some backupResource' \<Rightarrow> queue (deleteBackup E model backupResource') S))"

text \<open>
  \<open>discardAllWorkspaceBackups\<close> in its two parts: the assignment that runs when the
  function is called, and the callback that runs once \<open>ready\<close> has settled.
\<close>

definition discardAllWorkspaceBackups_sync :: "'fs BackupFileService \<Rightarrow> 'fs BackupFileService" where
  "discardAllWorkspaceBackups_sync S = S\<lparr>isShuttingDown := True\<rparr>"

definition discardAllWorkspaceBackups_then ::
  "('u, 'fs) env \<Rightarrow> 'fs BackupFileService \<Rightarrow> 'fs BackupFileService \<times> unit outcome" where
  "discardAllWorkspaceBackups_then E S =
     (case ready S of
        Rejected e \<Rightarrow> (S, Rejected e)
      | Fulfilled model \<Rightarrow>
          if \<not> backupEnabled S then (S, Fulfilled ())
          else
            (case pfs_del E (fs S) (backupWorkspacePath S) of
               (disk, Rejected e) \<Rightarrow> (S\<lparr>fs := disk\<rparr>, Rejected e)
             | (disk, Fulfilled _) \<Rightarrow> (S\<lparr>fs := disk, ready := Fulfilled clear\<rparr>, Fulfilled ())))"

definition discardAllWorkspaceBackups ::
  "('u, 'fs) env \<Rightarrow> 'fs BackupFileService \<Rightarrow> 'fs BackupFileService \<times> unit outcome" where
  "discardAllWorkspaceBackups E S =
     discardAllWorkspaceBackups_then E (discardAllWorkspaceBackups_sync S)"

definition readBackupOrigin :: "('u, 'fs) env \<Rightarrow> 'fs \<Rightarrow> 'u \<Rightarrow> 'u outcome" where
  "readBackupOrigin E disk fileBackup =
     (case readToMatchingString E disk (Uri_fsPath E fileBackup) META_MARKER 2000 10000 of
        Rejected e \<Rightarrow> Rejected e
      | Fulfilled s \<Rightarrow> Fulfilled (Uri_parse E s))"

definition getWorkspaceFileBackups :: "('u, 'fs) env \<Rightarrow> 'fs BackupFileService \<Rightarrow> 'u list outcome" where
  "getWorkspaceFileBackups E S =
     (case ready S of
        Rejected e \<Rightarrow> Rejected e
      | Fulfilled model \<Rightarrow>
          (let readPromises = map (readBackupOrigin E (fs S)) (get E model)
           in TPromise_join readPromises))"

subsection \<open>Metadata codec: reading the content back\<close>

text \<open>
  \<open>parseBackupContent\<close> receives a raw text source and turns it into a text source
  with \<open>TextSource.fromRawTextSource\<close>, declaring \<open>DefaultEndOfLine.LF\<close>. Both
  belong to the editor's text model (vs/editor/common/model/textSource), outside the
  file: how a text is split into lines and which end-of-line string the text source
  settles on is theirs to decide. The raw text source is a value of an arbitrary type
  \<open>'r\<close> and \<open>fromRawTextSource\<close> is a parameter; of the text source the function
  reads the two fields \<open>lines\<close> and \<open>EOL\<close>.
\<close>

datatype DefaultEndOfLine = LF | CRLF

record ITextSource =
  lines :: "string list"
  EOL :: string

text \<open>\<open>Array.prototype.join\<close>; \<open>slice(1)\<close> is \<open>drop 1\<close>.\<close>

fun Array_join :: "string list \<Rightarrow> string \<Rightarrow> string" where
  "Array_join [] sep = []"
| "Array_join [l] sep = l"
| "Array_join (l # l' # ls) sep = l @ sep @ Array_join (l' # ls) sep"

definition parseBackupContent ::
  "('r \<Rightarrow> DefaultEndOfLine \<Rightarrow> ITextSource) \<Rightarrow> 'r \<Rightarrow> string" where
  "parseBackupContent fromRawTextSource rawTextSource =
     (let textSource = fromRawTextSource rawTextSource LF
      in Array_join (drop 1 (lines textSource)) (EOL textSource))"

subsection \<open>An in-memory instance of the collaborators\<close>

text \<open>
  A small file system and resource type on which the operations can be run: a resource
  is a scheme and a path, the disk is a list of files (full path and content) with a
  switch that makes every write and delete fail. The digest is a stand-in for md5.
\<close>

datatype mem_uri = MemUri (mem_scheme: string) (mem_path: string)

record mem_fs =
  files :: "(string \<times> string) list"
  readonly :: bool

fun strip_prefix :: "string \<Rightarrow> string \<Rightarrow> string option" where
  "strip_prefix [] ys = Some ys"
| "strip_prefix (x # xs) [] = None"
| "strip_prefix (x # xs) (y # ys) = (if x = y then strip_prefix xs ys else None)"

fun mem_join :: "string list \<Rightarrow> string" where
  "mem_join [] = []"
| "mem_join [p] = p"
| "mem_join (p # q # ps) = p @ ''/'' @ mem_join (q # ps)"

text \<open>
  The entries of a directory: the first path component of every file below it. A
  directory with no file below it does not exist.
\<close>

fun mem_entries :: "bool \<Rightarrow> string \<Rightarrow> (string \<times> string) list \<Rightarrow> string list" where
  "mem_entries dirsOnly dir [] = []"
| "mem_entries dirsOnly dir ((p, c) # rest) =
     (case strip_prefix (dir @ ''/'') p of
        None \<Rightarrow> mem_entries dirsOnly dir rest
      | Some below \<Rightarrow>
          (let name = takeWhile (\<lambda>ch. ch \<noteq> CHR ''/'') below in
           if dirsOnly \<and> name = below then mem_entries dirsOnly dir rest
           else List.insert name (mem_entries dirsOnly dir rest)))"

definition mem_list :: "bool \<Rightarrow> mem_fs \<Rightarrow> string \<Rightarrow> string list outcome" where
  "mem_list dirsOnly disk dir =
     (if mem_entries False dir (files disk) = [] then Rejected (Error ''ENOENT'')
      else Fulfilled (mem_entries dirsOnly dir (files disk)))"

definition mem_del :: "mem_fs \<Rightarrow> string \<Rightarrow> mem_fs \<times> unit outcome" where
  "mem_del disk p =
     (if readonly disk then (disk, Rejected (Error ''EACCES''))
      else (disk\<lparr>files := filter (\<lambda>(q, c). q \<noteq> p \<and> strip_prefix (p @ ''/'') q = None) (files disk)\<rparr>,
            Fulfilled ()))"

definition mem_updateContent :: "mem_fs \<Rightarrow> mem_uri \<Rightarrow> string \<Rightarrow> mem_fs \<times> unit outcome" where
  "mem_updateContent disk u content =
     (if readonly disk then (disk, Rejected (Error ''EACCES''))
      else (disk\<lparr>files := AList.update (mem_path u) content (files disk)\<rparr>, Fulfilled ()))"

fun upToMatch :: "string \<Rightarrow> string \<Rightarrow> string option" where
  "upToMatch m [] = (if m = [] then Some [] else None)"
| "upToMatch m (c # cs) =
     (if strip_prefix m (c # cs) \<noteq> None then Some []
      else map_option ((#) c) (upToMatch m cs))"

definition mem_readToMatchingString ::
  "mem_fs \<Rightarrow> string \<Rightarrow> string \<Rightarrow> nat \<Rightarrow> nat \<Rightarrow> string outcome" where
  "mem_readToMatchingString disk p m chunkBytes maximumBytesToRead =
     (case map_of (files disk) p of
        None \<Rightarrow> Rejected (Error ''ENOENT'')
      | Some content \<Rightarrow>
          (case upToMatch m (take maximumBytesToRead content) of
             None \<Rightarrow> Rejected (Error ''no match'')
           | Some s \<Rightarrow> Fulfilled s))"

definition mem_toString :: "mem_uri \<Rightarrow> string" where
  "mem_toString u = mem_scheme u @ '':'' @ mem_path u"

definition mem_parse :: "string \<Rightarrow> mem_uri" where
  "mem_parse s =
     MemUri (takeWhile (\<lambda>ch. ch \<noteq> CHR '':'') s) (drop 1 (dropWhile (\<lambda>ch. ch \<noteq> CHR '':'') s))"

definition mem_digest :: "string \<Rightarrow> string" where
  "mem_digest p = filter (\<lambda>ch. ch \<noteq> CHR ''/'') p"

definition mem_env :: "(mem_uri, mem_fs) env" where
  "mem_env =
     \<lparr>Uri_toString = mem_toString, Uri_scheme = mem_scheme, Uri_fsPath = mem_path,
      Uri_file = MemUri ''file'', Uri_parse = mem_parse,
      path_join = mem_join, md5_hex = mem_digest,
      pfs_readDirsInDir = mem_list True, pfs_readdir = mem_list False,
      pfs_del = mem_del, fileService_updateContent = mem_updateContent,
      readToMatchingString = mem_readToMatchingString\<rparr>"





text \<open>
  A backup root with one backup of \<open>file:/tmp/a\<close> written by an earlier run and
  one file that has no framing line.
\<close>

definition demo_disk :: mem_fs where
  "demo_disk =
     \<lparr>files = [(''/b/file/tmpa'', ''file:/tmp/a'' @ META_MARKER @ ''hello''),
               (''/b/untitled/Untitled-1'', ''garbage'')],
      readonly = False\<rparr>"

definition demo_service :: "mem_fs BackupFileService" where
  "demo_service = constructor mem_env ''/b'' demo_disk"

definition demo_resource :: mem_uri where
  "demo_resource = MemUri ''file'' ''/tmp/a''"

text \<open>
  A service whose index is empty although the disk holds backups: it was constructed
  when the root did not exist yet, and the files were written afterwards.
\<close>

definition stale_service :: "mem_fs BackupFileService" where
  "stale_service = (constructor mem_env ''/b'' \<lparr>files = [], readonly = False\<rparr>)\<lparr>fs := demo_disk\<rparr>"

section \<open>Properties\<close>

subsection \<open>Auxiliary facts\<close>

lemma has_add_same: "has E (add E m b (Some v)) b (Some v)"
  by (simp add: has_def add_def update_conv')

lemma getBackupResource_update [simp]:
  "getBackupResource E (S\<lparr>fs := d\<rparr>) r = getBackupResource E S r"
  "getBackupResource E (S\<lparr>ready := m\<rparr>) r = getBackupResource E S r"
  "getBackupResource E (S\<lparr>isShuttingDown := f\<rparr>) r = getBackupResource E S r"
  by (simp_all add: getBackupResource_def backupEnabled_def)

lemma remove_unknown: "\<not> has E model b None \<Longrightarrow> remove E model b = model"
  by (auto simp add: has_def remove_def map_of_eq_None_iff split: option.splits)

lemma ready_update_same: "ready S = r \<Longrightarrow> S\<lparr>fs := d, ready := r\<rparr> = S\<lparr>fs := d\<rparr>"
  by (cases S) simp

lemma rejections_map_Fulfilled: "rejections (map Fulfilled us) = []"
  by (induction us) simp_all

lemma fulfilments_map_Fulfilled: "fulfilments (map Fulfilled us) = us"
  by (induction us) simp_all

lemma rejections_member: "Rejected e \<in> set ps \<Longrightarrow> e \<in> set (rejections ps)"
  by (induction ps rule: rejections.induct) auto

lemma map_of_addHashes:
  "map_of (addHashes E p hs m) k =
     (if k \<in> (\<lambda>h. Uri_toString E (Uri_file E (path_join E [p, h]))) ` set hs then Some 0
      else map_of m k)"
  unfolding addHashes_def
  by (induction hs arbitrary: m) (auto simp add: add_def update_conv')

lemma readSchema_keeps:
  "map_of m k = Some 0 \<Longrightarrow> map_of (fst (readSchema E disk root s m)) k = Some 0"
  by (simp add: readSchema_def Let_def map_of_addHashes split: outcome.splits)

lemma readSchema_adds:
  "pfs_readdir E disk (path_join E [root, s]) = Fulfilled hs \<Longrightarrow> h \<in> set hs \<Longrightarrow>
   map_of (fst (readSchema E disk root s m))
     (Uri_toString E (Uri_file E (path_join E [path_join E [root, s], h]))) = Some 0"
  by (simp add: readSchema_def Let_def map_of_addHashes)

lemma fst_readSchemas_Cons:
  "fst (readSchemas E disk root (s # ss) m) =
     fst (readSchemas E disk root ss (fst (readSchema E disk root s m)))"
  by (simp split: prod.splits)

lemma readSchemas_keeps:
  "map_of m k = Some 0 \<Longrightarrow> map_of (fst (readSchemas E disk root ss m)) k = Some 0"
proof (induction ss arbitrary: m)
  case Nil
  then show ?case by simp
next
  case (Cons s ss)
  from Cons.prems have "map_of (fst (readSchema E disk root s m)) k = Some 0"
    by (rule readSchema_keeps)
  then have "map_of (fst (readSchemas E disk root ss (fst (readSchema E disk root s m)))) k = Some 0"
    by (rule Cons.IH)
  then show ?case by (simp only: fst_readSchemas_Cons)
qed

lemma readSchemas_adds:
  "s \<in> set ss \<Longrightarrow> pfs_readdir E disk (path_join E [root, s]) = Fulfilled hs \<Longrightarrow> h \<in> set hs \<Longrightarrow>
   map_of (fst (readSchemas E disk root ss m))
     (Uri_toString E (Uri_file E (path_join E [path_join E [root, s], h]))) = Some 0"
proof (induction ss arbitrary: m)
  case Nil
  then show ?case by simp
next
  case (Cons a ss)
  let ?k = "Uri_toString E (Uri_file E (path_join E [path_join E [root, s], h]))"
  let ?m1 = "fst (readSchema E disk root a m)"
  have "map_of (fst (readSchemas E disk root ss ?m1)) ?k = Some 0"
  proof (cases "s = a")
    case True
    with Cons.prems have "map_of ?m1 ?k = Some 0" by (simp add: readSchema_adds)
    then show ?thesis by (rule readSchemas_keeps)
  next
    case False
    with Cons.prems have "s \<in> set ss" by simp
    then show ?thesis using Cons.prems(2,3) by (rule Cons.IH)
  qed
  then show ?case by (simp only: fst_readSchemas_Cons)
qed

lemma resolve_eq:
  "resolve E disk root this = Fulfilled (fst (scan E disk root this))"
  by (simp add: resolve_def split: prod.splits outcome.splits)

lemma scan_found:
  "pfs_readDirsInDir E disk root = Fulfilled ss \<Longrightarrow>
   fst (scan E disk root this) = fst (readSchemas E disk root ss this)"
  by (simp add: scan_def split: prod.splits)

text \<open>
  A text source that presents two framed texts alike, as normalizing their line endings
  does, cannot give both contents back: \<open>parseBackupContent\<close> sees the text source
  only.
\<close>

lemma parseBackupContent_same_source:
  assumes "fromRawTextSource (readText (frame E resource content1)) LF =
           fromRawTextSource (readText (frame E resource content2)) LF"
    and "content1 \<noteq> content2"
  shows "parseBackupContent fromRawTextSource (readText (frame E resource content1)) \<noteq> content1 \<or>
         parseBackupContent fromRawTextSource (readText (frame E resource content2)) \<noteq> content2"
  using assms by (auto simp add: parseBackupContent_def)

subsection \<open>The in-memory instance, evaluated\<close>

lemma demo_service_eq:
  "demo_service =
     \<lparr>backupWorkspacePath = ''/b'', isShuttingDown = False,
      ready = Fulfilled [(''file:/b/file/tmpa'', 0), (''file:/b/untitled/Untitled-1'', 0)],
      fs = demo_disk\<rparr>"
  by (simp add: demo_service_def constructor_def init_def resolve_def scan_def mem_env_def
      mem_list_def demo_disk_def META_MARKER_def readSchema_def addHashes_def add_def
      TPromise_join_def mem_toString_def)

lemma demo_service_fields:
  "backupWorkspacePath demo_service = ''/b''"
  "isShuttingDown demo_service = False"
  "ready demo_service = Fulfilled [(''file:/b/file/tmpa'', 0), (''file:/b/untitled/Untitled-1'', 0)]"
  "fs demo_service = demo_disk"
  by (simp_all add: demo_service_eq)

lemma demo_location:
  "getBackupResource mem_env demo_service demo_resource = Some (MemUri ''file'' ''/b/file/tmpa'')"
  by (simp add: demo_service_eq getBackupResource_def backupEnabled_def mem_env_def hashPath_def
      demo_resource_def mem_digest_def)

lemma demo_backup_v1:
  "backupResource mem_env demo_service demo_resource ''hello again'' (Some 1) =
     (demo_service\<lparr>fs := demo_disk\<lparr>files := [(''/b/file/tmpa'', ''file:/tmp/a'' @ META_MARKER @ ''hello again''),
               (''/b/untitled/Untitled-1'', ''garbage'')]\<rparr>,
         ready := Fulfilled [(''file:/b/file/tmpa'', 1), (''file:/b/untitled/Untitled-1'', 0)]\<rparr>, Fulfilled ())"
  by (simp add: backupResource_def demo_location demo_service_fields queue_def writeBackup_def)
    (simp add: has_def mem_env_def mem_toString_def mem_updateContent_def demo_disk_def
      frame_def demo_resource_def add_def)

lemma stale_service_eq:
  "stale_service =
     \<lparr>backupWorkspacePath = ''/b'', isShuttingDown = False, ready = Fulfilled [], fs = demo_disk\<rparr>"
  by (simp add: stale_service_def constructor_def init_def resolve_def scan_def mem_env_def
      mem_list_def)

lemma stale_service_fields:
  "ready stale_service = Fulfilled []"
  "fs stale_service = demo_disk"
  by (simp_all add: stale_service_eq)

lemma stale_location:
  "getBackupResource mem_env stale_service demo_resource = Some (MemUri ''file'' ''/b/file/tmpa'')"
  by (simp add: stale_service_eq getBackupResource_def backupEnabled_def mem_env_def hashPath_def
      demo_resource_def mem_digest_def)

subsection \<open>Metadata codec\<close>




subsection \<open>Writes, skips and shutdown\<close>

text \<open>
  Claim C2. When \<open>backupResource\<close> submits its write (the service is not shutting
  down, the index does not hold the location at the requested version) and the write is
  rejected, the call is rejected with the same error, the index is the one from before
  the call, and a retry with the same arguments is not skipped: it submits the write
  again.
\<close>

theorem backupResource_write_failure:
  assumes "\<not> isShuttingDown S"
    and "ready S = Fulfilled model"
    and "getBackupResource E S resource = Some b"
    and "\<not> has E model b versionId"
    and "fileService_updateContent E (fs S) b (frame E resource content) = (disk, Rejected e)"
  shows "backupResource E S resource content versionId = (S\<lparr>fs := disk\<rparr>, Rejected e) \<and>
         ready (S\<lparr>fs := disk\<rparr>) = Fulfilled model \<and>
         backupResource E (S\<lparr>fs := disk\<rparr>) resource content versionId =
           writeBackup E model b (frame E resource content) versionId (S\<lparr>fs := disk\<rparr>)"
  using assms by (simp add: backupResource_def queue_def writeBackup_def)

theorem backupResource_write_failure_witness:
  "\<not> isShuttingDown (demo_service\<lparr>fs := demo_disk\<lparr>readonly := True\<rparr>\<rparr>) \<and>
   \<not> has mem_env [(''file:/b/file/tmpa'', 0), (''file:/b/untitled/Untitled-1'', 0)]
        (MemUri ''file'' ''/b/file/tmpa'') (Some 1) \<and>
   backupResource mem_env (demo_service\<lparr>fs := demo_disk\<lparr>readonly := True\<rparr>\<rparr>) demo_resource
     ''hello'' (Some 1) =
   (demo_service\<lparr>fs := demo_disk\<lparr>readonly := True\<rparr>\<rparr>, Rejected (Error ''EACCES'')) \<and>
   ready (demo_service\<lparr>fs := demo_disk\<lparr>readonly := True\<rparr>\<rparr>) = ready demo_service"
proof -
  let ?S = "demo_service\<lparr>fs := demo_disk\<lparr>readonly := True\<rparr>\<rparr>"
  let ?m = "[(''file:/b/file/tmpa'', 0), (''file:/b/untitled/Untitled-1'', 0)]"
  let ?b = "MemUri ''file'' ''/b/file/tmpa''"
  have h1: "\<not> isShuttingDown ?S" by (simp add: demo_service_eq)
  have h2: "ready ?S = Fulfilled ?m" by (simp add: demo_service_eq)
  have h3: "getBackupResource mem_env ?S demo_resource = Some ?b" by (simp add: demo_location)
  have h4: "\<not> has mem_env ?m ?b (Some 1)" by (simp add: has_def mem_env_def mem_toString_def)
  have h5: "fileService_updateContent mem_env (fs ?S) ?b (frame mem_env demo_resource ''hello'') =
            (demo_disk\<lparr>readonly := True\<rparr>, Rejected (Error ''EACCES''))"
    by (simp add: mem_env_def mem_updateContent_def)
  from backupResource_write_failure [OF h1 h2 h3 h4 h5] h1 h4 show ?thesis by simp
qed

text \<open>
  Claim C3. After a call \<open>backupResource(R, content, v)\<close> that was fulfilled, a
  second call for \<open>R\<close> with the same version \<open>v\<close> (and any content) is
  fulfilled and changes nothing: neither the disk nor the index. When the first call was
  made on a service that is enabled and not shutting down, the index then holds the
  backup location of \<open>R\<close> at exactly \<open>v\<close>.
\<close>

theorem backupResource_same_version_idempotent:
  assumes "backupResource E S resource content (Some v) = (S', Fulfilled ())"
  shows "backupResource E S' resource content' (Some v) = (S', Fulfilled ()) \<and>
         (\<not> isShuttingDown S \<and> backupEnabled S \<longrightarrow>
            (\<exists>model b. ready S' = Fulfilled model \<and> getBackupResource E S' resource = Some b \<and>
               has E model b (Some v)))"
proof (cases "isShuttingDown S")
  case True
  with assms show ?thesis by (simp add: backupResource_def)
next
  case nsd: False
  show ?thesis
  proof (cases "ready S")
    case (Rejected e)
    with nsd assms show ?thesis by (simp add: backupResource_def)
  next
    case (Fulfilled model)
    show ?thesis
    proof (cases "getBackupResource E S resource")
      case None
      with nsd Fulfilled assms show ?thesis
        by (auto simp add: backupResource_def getBackupResource_def split: if_splits)
    next
      case (Some b)
      show ?thesis
      proof (cases "has E model b (Some v)")
        case True
        with nsd Fulfilled Some assms show ?thesis
          by (auto simp add: backupResource_def)
      next
        case False
        obtain d r where w: "fileService_updateContent E (fs S) b (frame E resource content) = (d, r)"
          by (cases "fileService_updateContent E (fs S) b (frame E resource content)")
        with nsd Fulfilled Some False assms
        have S': "S' = S\<lparr>fs := d, ready := Fulfilled (add E model b (Some v))\<rparr>"
          by (auto simp add: backupResource_def queue_def writeBackup_def split: outcome.splits)
        from nsd Some show ?thesis
          by (simp add: S' backupResource_def has_add_same)
      qed
    qed
  qed
qed

theorem backupResource_same_version_idempotent_witness:
  "backupResource mem_env demo_service demo_resource ''hello again'' (Some 1) =
     (fst (backupResource mem_env demo_service demo_resource ''hello again'' (Some 1)), Fulfilled ()) \<and>
   backupResource mem_env
     (fst (backupResource mem_env demo_service demo_resource ''hello again'' (Some 1)))
     demo_resource ''hello again'' (Some 1) =
     (fst (backupResource mem_env demo_service demo_resource ''hello again'' (Some 1)), Fulfilled ()) \<and>
   files (fs (fst (backupResource mem_env demo_service demo_resource ''hello again'' (Some 1)))) =
     [(''/b/file/tmpa'', ''file:/tmp/a'' @ META_MARKER @ ''hello again''),
      (''/b/untitled/Untitled-1'', ''garbage'')]"
proof -
  have h: "backupResource mem_env demo_service demo_resource ''hello again'' (Some 1) =
     (fst (backupResource mem_env demo_service demo_resource ''hello again'' (Some 1)), Fulfilled ())"
    by (simp add: demo_backup_v1)
  from backupResource_same_version_idempotent [OF h, of "''hello again''"] h show ?thesis
    by (simp add: demo_backup_v1)
qed

text \<open>
  Claim C4. The synchronous part of \<open>discardAllWorkspaceBackups\<close> sets the shutdown
  flag and touches neither the disk nor the index; the rest of the operation runs on
  the state with the flag set and leaves it set. In every state with the flag set,
  \<open>backupResource\<close> returns at once for every resource, content and version: the
  disk and the index are unchanged. The flag stays set through the rest of the discard
  and through \<open>discardResourceBackup\<close>.
\<close>

theorem shutdown_suppresses_backups:
  "isShuttingDown (discardAllWorkspaceBackups_sync S) \<and>
   fs (discardAllWorkspaceBackups_sync S) = fs S \<and>
   ready (discardAllWorkspaceBackups_sync S) = ready S \<and>
   discardAllWorkspaceBackups E S =
     discardAllWorkspaceBackups_then E (discardAllWorkspaceBackups_sync S) \<and>
   isShuttingDown (fst (discardAllWorkspaceBackups E S)) \<and>
   (isShuttingDown S' \<longrightarrow>
      backupResource E S' resource content versionId = (S', Fulfilled ()) \<and>
      isShuttingDown (fst (discardAllWorkspaceBackups_then E S')) \<and>
      isShuttingDown (fst (discardResourceBackup E S' resource)))"
  by (auto simp add: discardAllWorkspaceBackups_sync_def discardAllWorkspaceBackups_def
      discardAllWorkspaceBackups_then_def backupResource_def discardResourceBackup_def
      queue_def deleteBackup_def split: outcome.splits prod.splits option.splits)

theorem shutdown_suppresses_backups_witness:
  "isShuttingDown (discardAllWorkspaceBackups_sync demo_service) \<and>
   backupResource mem_env (discardAllWorkspaceBackups_sync demo_service) demo_resource ''new''
     (Some 7) = (discardAllWorkspaceBackups_sync demo_service, Fulfilled ())"
  using shutdown_suppresses_backups [of demo_service mem_env
      "discardAllWorkspaceBackups_sync demo_service" demo_resource "''new''" "Some 7"]
  by simp

text \<open>
  Claim C10. When the index holds the backup location of the resource at any version
  \<open>w\<close> and \<open>backupResource\<close> is called without a version id, nothing is
  written: the call is fulfilled and the service, the disk included, is unchanged.
\<close>

theorem backupResource_omitted_version_skips:
  assumes "ready S = Fulfilled model"
    and "getBackupResource E S resource = Some b"
    and "map_of model (Uri_toString E b) = Some w"
  shows "backupResource E S resource content None = (S, Fulfilled ())"
  using assms by (simp add: backupResource_def has_def)

theorem backupResource_omitted_version_skips_witness:
  "map_of [(''file:/b/file/tmpa'', 0), (''file:/b/untitled/Untitled-1'', 0)]
     (Uri_toString mem_env (MemUri ''file'' ''/b/file/tmpa'')) = Some (0::int) \<and>
   backupResource mem_env demo_service demo_resource ''changed'' None = (demo_service, Fulfilled ())"
proof -
  let ?m = "[(''file:/b/file/tmpa'', 0::int), (''file:/b/untitled/Untitled-1'', 0)]"
  have h1: "ready demo_service = Fulfilled ?m" by (simp add: demo_service_eq)
  have h3: "map_of ?m (Uri_toString mem_env (MemUri ''file'' ''/b/file/tmpa'')) = Some 0"
    by (simp add: mem_env_def mem_toString_def)
  from backupResource_omitted_version_skips [OF h1 demo_location h3] h3 show ?thesis by simp
qed

subsection \<open>Listing and discarding\<close>

text \<open>
  Claim C5 states that \<open>getWorkspaceFileBackups\<close> reports an entry whose origin cannot
  be read as an error of that entry and still returns the origins of the other entries.
  On the disk of \<open>demo_service\<close> the first backup has the origin \<open>file:/tmp/a\<close>
  and the second file has no marker: the read of the second is rejected, and with it the
  whole call, which returns no origin at all.
\<close>

theorem getWorkspaceFileBackups_counterexample:
  "readBackupOrigin mem_env (fs demo_service) (MemUri ''file'' ''/b/file/tmpa'') =
     Fulfilled (MemUri ''file'' ''/tmp/a'') \<and>
   readBackupOrigin mem_env (fs demo_service) (MemUri ''file'' ''/b/untitled/Untitled-1'') =
     Rejected (Error ''no match'') \<and>
   get mem_env [(''file:/b/file/tmpa'', 0), (''file:/b/untitled/Untitled-1'', 0)] =
     [MemUri ''file'' ''/b/file/tmpa'', MemUri ''file'' ''/b/untitled/Untitled-1''] \<and>
   getWorkspaceFileBackups mem_env demo_service = Rejected (JoinError [Error ''no match''])"
  by (simp add: getWorkspaceFileBackups_def demo_service_fields get_def readBackupOrigin_def
      TPromise_join_def)
     (simp add: mem_env_def mem_parse_def mem_readToMatchingString_def demo_disk_def
      META_MARKER_def)

text \<open>
  Claim C5, amended. \<open>getWorkspaceFileBackups\<close> is all or nothing. When the read of
  every known backup file is fulfilled, the call is fulfilled with the origins of all of
  them, in the order of the index. When the read of one of them is rejected, the whole
  call is rejected with the collected errors, the error of that entry among them.
\<close>

theorem getWorkspaceFileBackups_all_or_nothing:
  assumes "ready S = Fulfilled model"
  shows "(map (readBackupOrigin E (fs S)) (get E model) = map Fulfilled origins \<longrightarrow>
            getWorkspaceFileBackups E S = Fulfilled origins) \<and>
         (fileBackup \<in> set (get E model) \<and> readBackupOrigin E (fs S) fileBackup = Rejected e \<longrightarrow>
            (\<exists>errors. getWorkspaceFileBackups E S = Rejected (JoinError errors) \<and> e \<in> set errors))"
proof (intro conjI impI)
  assume "map (readBackupOrigin E (fs S)) (get E model) = map Fulfilled origins"
  with assms show "getWorkspaceFileBackups E S = Fulfilled origins"
    by (simp add: getWorkspaceFileBackups_def TPromise_join_def rejections_map_Fulfilled
        fulfilments_map_Fulfilled)
next
  assume a: "fileBackup \<in> set (get E model) \<and> readBackupOrigin E (fs S) fileBackup = Rejected e"
  let ?ps = "map (readBackupOrigin E (fs S)) (get E model)"
  from a have "Rejected e \<in> set ?ps" by force
  then have m: "e \<in> set (rejections ?ps)" by (rule rejections_member)
  then have "rejections ?ps \<noteq> []" by auto
  with assms m show "\<exists>errors. getWorkspaceFileBackups E S = Rejected (JoinError errors) \<and> e \<in> set errors"
    by (simp add: getWorkspaceFileBackups_def TPromise_join_def)
qed

theorem getWorkspaceFileBackups_all_or_nothing_witness:
  "MemUri ''file'' ''/b/untitled/Untitled-1'' \<in>
     set (get mem_env [(''file:/b/file/tmpa'', 0), (''file:/b/untitled/Untitled-1'', 0)]) \<and>
   readBackupOrigin mem_env (fs demo_service) (MemUri ''file'' ''/b/untitled/Untitled-1'') =
     Rejected (Error ''no match'') \<and>
   (\<exists>errors. getWorkspaceFileBackups mem_env demo_service = Rejected (JoinError errors) \<and>
      Error ''no match'' \<in> set errors) \<and>
   map (readBackupOrigin mem_env (fs demo_service)) (get mem_env [(''file:/b/file/tmpa'', 0)]) =
     map Fulfilled [MemUri ''file'' ''/tmp/a''] \<and>
   getWorkspaceFileBackups mem_env (demo_service\<lparr>ready := Fulfilled [(''file:/b/file/tmpa'', 0)]\<rparr>) =
     Fulfilled [MemUri ''file'' ''/tmp/a'']"
proof -
  let ?bad = "MemUri ''file'' ''/b/untitled/Untitled-1''"
  let ?S = "demo_service\<lparr>ready := Fulfilled [(''file:/b/file/tmpa'', 0)]\<rparr>"
  have h1: "?bad \<in> set (get mem_env [(''file:/b/file/tmpa'', 0), (''file:/b/untitled/Untitled-1'', 0)])"
    by (simp add: get_def mem_env_def mem_parse_def)
  have h2: "readBackupOrigin mem_env (fs demo_service) ?bad = Rejected (Error ''no match'')"
    by (simp add: readBackupOrigin_def demo_service_fields)
       (simp add: mem_env_def mem_readToMatchingString_def demo_disk_def META_MARKER_def)
  have h3: "map (readBackupOrigin mem_env (fs demo_service)) (get mem_env [(''file:/b/file/tmpa'', 0)]) =
     map Fulfilled [MemUri ''file'' ''/tmp/a'']"
    by (simp add: readBackupOrigin_def demo_service_fields get_def)
       (simp add: mem_env_def mem_readToMatchingString_def demo_disk_def META_MARKER_def
         mem_parse_def)
  from getWorkspaceFileBackups_all_or_nothing [OF demo_service_fields(3), of mem_env _ ?bad
      "Error ''no match''"] h1 h2
  have a: "\<exists>errors. getWorkspaceFileBackups mem_env demo_service = Rejected (JoinError errors) \<and>
      Error ''no match'' \<in> set errors"
    by blast
  have r: "ready ?S = Fulfilled [(''file:/b/file/tmpa'', 0)]" by simp
  from getWorkspaceFileBackups_all_or_nothing [OF r, of mem_env "[MemUri ''file'' ''/tmp/a'']"] h3
  have b: "getWorkspaceFileBackups mem_env ?S = Fulfilled [MemUri ''file'' ''/tmp/a'']"
    by simp
  from h1 h2 a h3 b show ?thesis by blast
qed

text \<open>
  Claim C6 states that \<open>discardResourceBackup\<close> performs no delete for a resource
  whose backup location the index does not know. In \<open>stale_service\<close> the index is
  empty and the disk holds a file at the backup location of \<open>demo_resource\<close>: the
  call deletes the file.
\<close>

theorem discardResourceBackup_unknown_counterexample:
  "ready stale_service = Fulfilled [] \<and>
   getBackupResource mem_env stale_service demo_resource = Some (MemUri ''file'' ''/b/file/tmpa'') \<and>
   \<not> has mem_env [] (MemUri ''file'' ''/b/file/tmpa'') None \<and>
   files (fs stale_service) =
     [(''/b/file/tmpa'', ''file:/tmp/a'' @ META_MARKER @ ''hello''), (''/b/untitled/Untitled-1'', ''garbage'')] \<and>
   files (fs (fst (discardResourceBackup mem_env stale_service demo_resource))) =
     [(''/b/untitled/Untitled-1'', ''garbage'')]"
  by (simp add: discardResourceBackup_def stale_location stale_service_fields queue_def
      deleteBackup_def has_def)
     (simp add: mem_env_def mem_del_def demo_disk_def)

text \<open>
  Claim C6, amended. With backups disabled \<open>discardResourceBackup\<close> changes nothing:
  no delete, no index mutation. With backups enabled and a backup location the index
  does not know, the delete of the location is still submitted and its outcome is the
  outcome of the call; the index is unchanged, whether the delete is fulfilled or
  rejected.
\<close>

theorem discardResourceBackup_unknown:
  "(\<not> backupEnabled S \<longrightarrow> fst (discardResourceBackup E S resource) = S) \<and>
   (ready S = Fulfilled model \<and> getBackupResource E S resource = Some b \<and> \<not> has E model b None \<longrightarrow>
      discardResourceBackup E S resource =
        (S\<lparr>fs := fst (pfs_del E (fs S) (Uri_fsPath E b))\<rparr>, snd (pfs_del E (fs S) (Uri_fsPath E b))))"
proof (intro conjI impI)
  assume "\<not> backupEnabled S"
  then show "fst (discardResourceBackup E S resource) = S"
    by (simp add: discardResourceBackup_def getBackupResource_def split: outcome.splits)
next
  assume a: "ready S = Fulfilled model \<and> getBackupResource E S resource = Some b \<and> \<not> has E model b None"
  obtain d r where del: "pfs_del E (fs S) (Uri_fsPath E b) = (d, r)"
    by (cases "pfs_del E (fs S) (Uri_fsPath E b)")
  from a have "remove E model b = model" by (simp add: remove_unknown)
  with a del show "discardResourceBackup E S resource =
        (S\<lparr>fs := fst (pfs_del E (fs S) (Uri_fsPath E b))\<rparr>, snd (pfs_del E (fs S) (Uri_fsPath E b)))"
    by (cases r) (simp_all add: discardResourceBackup_def queue_def deleteBackup_def ready_update_same)
qed

theorem discardResourceBackup_unknown_witness:
  "\<not> backupEnabled (constructor mem_env [] demo_disk) \<and>
   fst (discardResourceBackup mem_env (constructor mem_env [] demo_disk) demo_resource) =
     constructor mem_env [] demo_disk \<and>
   \<not> has mem_env [] (MemUri ''file'' ''/b/file/tmpa'') None \<and>
   discardResourceBackup mem_env stale_service demo_resource =
     (stale_service\<lparr>fs := demo_disk\<lparr>files := [(''/b/untitled/Untitled-1'', ''garbage'')]\<rparr>\<rparr>,
      Fulfilled ())"
proof -
  have h1: "\<not> backupEnabled (constructor mem_env [] demo_disk)"
    by (simp add: backupEnabled_def constructor_def)
  have h2: "\<not> has mem_env [] (MemUri ''file'' ''/b/file/tmpa'') None"
    by (simp add: has_def)
  have d: "pfs_del mem_env (fs stale_service) (Uri_fsPath mem_env (MemUri ''file'' ''/b/file/tmpa'')) =
             (demo_disk\<lparr>files := [(''/b/untitled/Untitled-1'', ''garbage'')]\<rparr>, Fulfilled ())"
    by (simp add: stale_service_fields) (simp add: mem_env_def mem_del_def demo_disk_def)
  from discardResourceBackup_unknown [of "constructor mem_env [] demo_disk" mem_env demo_resource]
  have a: "fst (discardResourceBackup mem_env (constructor mem_env [] demo_disk) demo_resource) =
     constructor mem_env [] demo_disk"
    using h1 by blast
  from discardResourceBackup_unknown [of stale_service mem_env demo_resource "[]"
      "MemUri ''file'' ''/b/file/tmpa''"] stale_service_fields(1) stale_location h2
  have b: "discardResourceBackup mem_env stale_service demo_resource =
     (stale_service\<lparr>fs := demo_disk\<lparr>files := [(''/b/untitled/Untitled-1'', ''garbage'')]\<rparr>\<rparr>,
      Fulfilled ())"
    by (simp add: d)
  from h1 a h2 b show ?thesis by blast
qed

subsection \<open>Initialization\<close>

text \<open>
  Claim C7. When the service is constructed on a configured root whose directory listing
  is fulfilled, every file found in a schema directory that could be read is in the index
  with version id 0: \<open>has\<close> holds for its location without a version and with
  version 0, and \<open>hasBackups\<close> is true. This does not depend on the other schema
  directories being readable, nor on the order in which the reads complete, since every
  entry is added with version 0. A resource whose scheme and digest are the names of the
  directory and of the file is loaded from that entry, provided \<open>path.join\<close> of the
  three segments is the join of the joined first two with the third.
\<close>

theorem resolve_adds_found_files:
  assumes "root \<noteq> []"
    and "pfs_readDirsInDir E disk root = Fulfilled backupSchemas"
    and "backupSchema \<in> set backupSchemas"
    and "pfs_readdir E disk (path_join E [root, backupSchema]) = Fulfilled backupHashes"
    and "backupHash \<in> set backupHashes"
  shows "\<exists>model. ready (constructor E root disk) = Fulfilled model \<and>
           map_of model (Uri_toString E
             (Uri_file E (path_join E [path_join E [root, backupSchema], backupHash]))) = Some 0 \<and>
           has E model (Uri_file E (path_join E [path_join E [root, backupSchema], backupHash])) None \<and>
           has E model (Uri_file E (path_join E [path_join E [root, backupSchema], backupHash])) (Some 0) \<and>
           hasBackups (constructor E root disk) = Fulfilled True \<and>
           (Uri_scheme E resource = backupSchema \<and> hashPath E resource = backupHash \<and>
            path_join E [root, backupSchema, backupHash] =
              path_join E [path_join E [root, backupSchema], backupHash] \<longrightarrow>
              loadBackupResource E (constructor E root disk) resource =
                Fulfilled (Some (Uri_file E (path_join E [root, backupSchema, backupHash]))))"
proof -
  let ?model = "fst (readSchemas E disk root backupSchemas [])"
  let ?loc = "Uri_file E (path_join E [path_join E [root, backupSchema], backupHash])"
  from assms(1,2) have r: "ready (constructor E root disk) = Fulfilled ?model"
    by (simp add: constructor_def init_def resolve_eq scan_found)
  from assms(3,4,5) have m: "map_of ?model (Uri_toString E ?loc) = Some 0"
    by (rule readSchemas_adds)
  then have "?model \<noteq> []" by auto
  with r m assms(1) show ?thesis
    by (auto simp add: has_def hasBackups_def count_def loadBackupResource_def
        getBackupResource_def backupEnabled_def constructor_def)
qed

theorem resolve_adds_found_files_witness:
  "pfs_readDirsInDir mem_env demo_disk ''/b'' = Fulfilled [''file'', ''untitled''] \<and>
   pfs_readdir mem_env demo_disk (path_join mem_env [''/b'', ''file'']) = Fulfilled [''tmpa''] \<and>
   ready (constructor mem_env ''/b'' demo_disk) =
     Fulfilled [(''file:/b/file/tmpa'', 0), (''file:/b/untitled/Untitled-1'', 0)] \<and>
   (\<exists>model. ready (constructor mem_env ''/b'' demo_disk) = Fulfilled model \<and>
      has mem_env model (MemUri ''file'' ''/b/file/tmpa'') (Some 0) \<and>
      hasBackups (constructor mem_env ''/b'' demo_disk) = Fulfilled True \<and>
      loadBackupResource mem_env (constructor mem_env ''/b'' demo_disk) demo_resource =
        Fulfilled (Some (MemUri ''file'' ''/b/file/tmpa'')))"
proof -
  have h1: "''/b'' \<noteq> []" by simp
  have h2: "pfs_readDirsInDir mem_env demo_disk ''/b'' = Fulfilled [''file'', ''untitled'']"
    by (simp add: mem_env_def mem_list_def demo_disk_def)
  have h3: "''file'' \<in> set [''file'', ''untitled'']" by simp
  have h4: "pfs_readdir mem_env demo_disk (path_join mem_env [''/b'', ''file'']) = Fulfilled [''tmpa'']"
    by (simp add: mem_env_def mem_list_def demo_disk_def)
  have h5: "''tmpa'' \<in> set [''tmpa'']" by simp
  have e: "Uri_file mem_env (path_join mem_env [path_join mem_env [''/b'', ''file''], ''tmpa'']) =
             MemUri ''file'' ''/b/file/tmpa''"
          "Uri_file mem_env (path_join mem_env [''/b'', ''file'', ''tmpa'']) =
             MemUri ''file'' ''/b/file/tmpa''"
          "Uri_scheme mem_env demo_resource = ''file''"
          "hashPath mem_env demo_resource = ''tmpa''"
          "path_join mem_env [''/b'', ''file'', ''tmpa''] =
             path_join mem_env [path_join mem_env [''/b'', ''file''], ''tmpa'']"
    by (simp_all add: mem_env_def hashPath_def demo_resource_def mem_digest_def)
  have r: "ready (constructor mem_env ''/b'' demo_disk) =
     Fulfilled [(''file:/b/file/tmpa'', 0), (''file:/b/untitled/Untitled-1'', 0)]"
    using demo_service_fields(3) by (simp add: demo_service_def)
  from resolve_adds_found_files [OF h1 h2 h3 h4 h5, of demo_resource] e h2 h4 r
  show ?thesis by auto
qed

text \<open>
  Claim C8. \<open>resolve\<close> is always fulfilled, with the model as the scan left it,
  whether the scan was fulfilled or rejected; so \<open>init\<close> and the \<open>ready\<close>
  promise of a constructed service are always fulfilled. When the listing of the root is
  rejected, the model is the one \<open>resolve\<close> started from: the empty one for
  \<open>init\<close>.
\<close>

theorem resolve_never_fails:
  "resolve E disk root this = Fulfilled (fst (scan E disk root this)) \<and>
   (\<exists>model. init E root disk = Fulfilled model) \<and>
   (\<exists>model. ready (constructor E root disk) = Fulfilled model) \<and>
   (pfs_readDirsInDir E disk root = Rejected e \<longrightarrow>
      resolve E disk root this = Fulfilled this \<and> init E root disk = Fulfilled [])"
  by (simp add: constructor_def init_def resolve_eq) (simp add: scan_def)

theorem resolve_never_fails_witness:
  "pfs_readDirsInDir mem_env demo_disk ''/nowhere'' = Rejected (Error ''ENOENT'') \<and>
   resolve mem_env demo_disk ''/nowhere'' [] = Fulfilled [] \<and>
   init mem_env ''/nowhere'' demo_disk = Fulfilled []"
proof -
  have h: "pfs_readDirsInDir mem_env demo_disk ''/nowhere'' = Rejected (Error ''ENOENT'')"
    by (simp add: mem_env_def mem_list_def demo_disk_def)
  from resolve_never_fails [of mem_env demo_disk "''/nowhere''" "[]" "Error ''ENOENT''"] h
  show ?thesis by blast
qed

subsection \<open>Backup location\<close>

text \<open>
  Claim C9. With a configured backup root, the backup location of a resource is the
  file resource of the path joined from the root, the scheme of the resource and the
  digest of its file-system path (\<open>fsPath\<close>). The location depends on the root and
  the resource only: any service state with the same root computes the same location.
\<close>

theorem getBackupResource_location:
  assumes "backupEnabled S"
  shows "getBackupResource E S resource =
           Some (Uri_file E (path_join E
             [backupWorkspacePath S, Uri_scheme E resource, md5_hex E (Uri_fsPath E resource)])) \<and>
         (backupWorkspacePath S' = backupWorkspacePath S \<longrightarrow>
            getBackupResource E S' resource = getBackupResource E S resource)"
  using assms by (simp add: getBackupResource_def hashPath_def backupEnabled_def)

theorem getBackupResource_location_witness:
  "backupEnabled demo_service \<and>
   getBackupResource mem_env demo_service demo_resource = Some (MemUri ''file'' ''/b/file/tmpa'') \<and>
   getBackupResource mem_env (discardAllWorkspaceBackups_sync demo_service) demo_resource =
     getBackupResource mem_env demo_service demo_resource"
proof -
  have h: "backupEnabled demo_service" by (simp add: backupEnabled_def demo_service_eq)
  from getBackupResource_location [OF h, of mem_env demo_resource
      "discardAllWorkspaceBackups_sync demo_service"] h
  show ?thesis
    by (simp add: demo_service_eq mem_env_def demo_resource_def mem_digest_def
        discardAllWorkspaceBackups_sync_def)
qed

end
